theory Spec2Isabelle
  imports Main
begin

section \<open>Python helpers\<close>

text \<open>
  The source is Python. Strings are modelled as \<open>string\<close> (ASCII), a value that may be
  \<open>None\<close> or a missing dictionary key as an \<open>option\<close>. Python's truth test on an optional
  string (\<open>if x:\<close>, \<open>not x\<close>, \<open>a or b\<close>) is false for \<open>None\<close> and for the empty string.
\<close>

datatype py_error = IndexError | ValueError | SlackApiError

definition truthy :: "string option \<Rightarrow> bool" where
  "truthy x = (case x of None \<Rightarrow> False | Some s \<Rightarrow> s \<noteq> [])"

definition py_or :: "string option \<Rightarrow> string option \<Rightarrow> string option" where
  "py_or a b = (if truthy a then a else b)"

fun join :: "string \<Rightarrow> string list \<Rightarrow> string" where
  "join sep [] = []"
| "join sep [x] = x"
| "join sep (x # y # ys) = x @ sep @ join sep (y # ys)"

definition is_space :: "char \<Rightarrow> bool" where
  "is_space c = (let n = (of_char c :: nat) in (9 \<le> n \<and> n \<le> 13) \<or> (28 \<le> n \<and> n \<le> 32))"

definition strip :: "string \<Rightarrow> string" where
  "strip s = rev (dropWhile is_space (rev (dropWhile is_space s)))"

definition upper :: "string \<Rightarrow> string" where
  "upper s = map (\<lambda>c. let n = (of_char c :: nat) in
                        if 97 \<le> n \<and> n \<le> 122 then char_of (n - 32) else c) s"

definition ljust :: "nat \<Rightarrow> string \<Rightarrow> string" where
  "ljust w s = s @ replicate (w - length s) CHR '' ''"

text \<open>\<open>xs[:n]\<close>: a negative bound counts from the end of the list.\<close>

definition slice_to :: "int \<Rightarrow> 'a list \<Rightarrow> 'a list" where
  "slice_to n xs = (if 0 \<le> n then take (nat n) xs else take (nat (int (length xs) + n)) xs)"

function digits :: "nat \<Rightarrow> string" where
  "digits n = (if n < 10 then [''0123456789'' ! n]
               else digits (n div 10) @ [''0123456789'' ! (n mod 10)])"
  by pat_completeness auto
termination
  by (relation "measure id") auto

definition str_int :: "int \<Rightarrow> string" where
  "str_int i = (if i < 0 then CHR ''-'' # digits (nat (- i)) else digits (nat i))"

section \<open>Data model\<close>

subsection \<open>Payloads of the Genie REST API\<close>

text \<open>
  The payloads are JSON objects. Each is a record of the keys the code reads, a key that
  may be missing being an \<open>option\<close> (\<open>None\<close>: the key is absent). Payloads are taken to be
  well shaped: a key that is present holds a value of the kind the code expects.
\<close>

record ids =
  i_conversation_id :: "string option"
  i_id :: "string option"

record conversation_data =
  cv_id :: "string option"

text \<open>The body answered to start-conversation and to create-message.\<close>

record raw_response =
  raw_message :: "ids option"
  raw_conversation :: "conversation_data option"
  raw_conversation_id :: "string option"
  raw_id :: "string option"

record text_fragment =
  t_content :: "string option"

record query_fragment =
  q_description :: "string option"
  q_query :: "string option"

record attachment =
  a_text :: "text_fragment option"
  a_query :: "query_fragment option"
  a_attachment_id :: "string option"

text \<open>
  The \<open>error\<close> key of a message: a dictionary with an optional \<open>message\<close>, or any other
  value, kept as the string \<open>str\<close> gives for it.
\<close>

datatype error_detail = ErrorDict "string option" | ErrorOther string

record message =
  m_status :: "string option"
  m_error :: "error_detail option"
  m_attachments :: "attachment list option"
  m_content :: "string option"

text \<open>
  A cell of a result row: \<open>None\<close>, a string, an integer or a boolean (a floating point
  value is left out: its \<open>str\<close> is not modelled).
\<close>

datatype cell = VNone | VStr string | VInt int | VBool bool

type_synonym row = "cell list"

record column =
  c_name :: "string option"

record schema =
  s_columns :: "column list option"

record manifest =
  mf_schema :: "schema option"

record data_section =
  d_data_array :: "row list option"
  d_row_count :: "int option"

text \<open>
  The body answered to query-result; \<open>r_other_keys\<close> says whether the object has keys
  other than \<open>manifest\<close> and \<open>result\<close> (a dictionary is true in Python when it has a key).
\<close>

record query_result =
  r_manifest :: "manifest option"
  r_result :: "data_section option"
  r_other_keys :: bool

definition dict_nonempty :: "query_result \<Rightarrow> bool" where
  "dict_nonempty qr = (r_manifest qr \<noteq> None \<or> r_result qr \<noteq> None \<or> r_other_keys qr)"

subsection \<open>The answer of \<open>ask\<close>\<close>

text \<open>
  The dictionary \<open>ask\<close> returns. A key that is missing and a key holding \<open>None\<close> are both
  \<open>None\<close> here: every reader of the dictionary uses \<open>get\<close>.
\<close>

record answer =
  success :: bool
  conversation_id :: "string option"
  message_id :: "string option"
  answer_text :: "string option"
  sql :: "string option"
  result_data :: "query_result option"
  attachments :: "attachment list option"
  error :: "string option"

subsection \<open>The outside world\<close>

text \<open>
  Every HTTP exchange goes through \<open>_request\<close>, which catches every exception and returns
  \<open>None\<close> for a failed exchange. The five wrappers of \<open>_request\<close> are modelled over a
  backend: one function per endpoint, from the arguments that go into the path and body,
  the time of the call and the backend's own state, to the reply and the backend's next
  state. The Slack Web API is the sixth function: \<open>None\<close> when the call raises, else the
  \<open>ts\<close> of the response.
\<close>

datatype request =
    StartConversation string
  | CreateMessage string string
  | GetMessage string string
  | GetQueryResult string string string
  | SendFeedback string string string

datatype slack_call =
    Say string string
  | PostMessage string string string
  | PostButtons string string
  | ChatUpdate "string option" "string option" string

record 's backend =
  http_start_conversation :: "string \<Rightarrow> int \<Rightarrow> 's \<Rightarrow> raw_response option \<times> 's"
  http_create_message :: "string \<Rightarrow> string \<Rightarrow> int \<Rightarrow> 's \<Rightarrow> raw_response option \<times> 's"
  http_get_message :: "string \<Rightarrow> string \<Rightarrow> int \<Rightarrow> 's \<Rightarrow> message option \<times> 's"
  http_get_query_result :: "string \<Rightarrow> string \<Rightarrow> string \<Rightarrow> int \<Rightarrow> 's \<Rightarrow> query_result option \<times> 's"
  http_send_feedback :: "string \<Rightarrow> string \<Rightarrow> string \<Rightarrow> int \<Rightarrow> 's \<Rightarrow> bool \<times> 's"
  slack_api :: "slack_call \<Rightarrow> int \<Rightarrow> 's \<Rightarrow> string option \<times> 's"

text \<open>
  The world: the state of the outside, the clock \<open>time.time()\<close> reads, and the requests
  and Slack calls issued so far, in order. The clock moves only in \<open>time.sleep\<close>.
\<close>

record 's world =
  ext :: 's
  now :: int
  trace :: "request list"
  outbox :: "slack_call list"

record genie =
  poll_interval :: int
  max_wait :: int

section \<open>The Genie client\<close>

definition start_conversation ::
  "'s backend \<Rightarrow> string \<Rightarrow> 's world \<Rightarrow> raw_response option \<times> 's world" where
  "start_conversation be question w =
     (case http_start_conversation be question (now w) (ext w) of
        (r, s) \<Rightarrow> (r, w\<lparr>ext := s, trace := trace w @ [StartConversation question]\<rparr>))"

definition create_message ::
  "'s backend \<Rightarrow> string \<Rightarrow> string \<Rightarrow> 's world \<Rightarrow> raw_response option \<times> 's world" where
  "create_message be cid question w =
     (case http_create_message be cid question (now w) (ext w) of
        (r, s) \<Rightarrow> (r, w\<lparr>ext := s, trace := trace w @ [CreateMessage cid question]\<rparr>))"

definition get_message ::
  "'s backend \<Rightarrow> string \<Rightarrow> string \<Rightarrow> 's world \<Rightarrow> message option \<times> 's world" where
  "get_message be cid mid w =
     (case http_get_message be cid mid (now w) (ext w) of
        (r, s) \<Rightarrow> (r, w\<lparr>ext := s, trace := trace w @ [GetMessage cid mid]\<rparr>))"

definition get_query_result ::
  "'s backend \<Rightarrow> string \<Rightarrow> string \<Rightarrow> string \<Rightarrow> 's world \<Rightarrow> query_result option \<times> 's world" where
  "get_query_result be cid mid aid w =
     (case http_get_query_result be cid mid aid (now w) (ext w) of
        (r, s) \<Rightarrow> (r, w\<lparr>ext := s, trace := trace w @ [GetQueryResult cid mid aid]\<rparr>))"

definition send_feedback ::
  "'s backend \<Rightarrow> string \<Rightarrow> string \<Rightarrow> string \<Rightarrow> 's world \<Rightarrow> bool \<times> 's world" where
  "send_feedback be cid mid rating w =
     (case http_send_feedback be cid mid (upper rating) (now w) (ext w) of
        (r, s) \<Rightarrow> (r, w\<lparr>ext := s, trace := trace w @ [SendFeedback cid mid (upper rating)]\<rparr>))"

text \<open>\<open>time.sleep\<close> raises \<open>ValueError\<close> on a negative length.\<close>

definition sleep :: "int \<Rightarrow> 's world \<Rightarrow> py_error + 's world" where
  "sleep d w = (if d < 0 then Inl ValueError else Inr (w\<lparr>now := now w + d\<rparr>))"

text \<open>
  The loop of \<open>_poll_until_done\<close>. It may run forever (a poll interval of 0 never moves
  the clock of this model), so not returning is the value \<open>None\<close>.
\<close>

partial_function (option) poll_loop ::
  "'s backend \<Rightarrow> genie \<Rightarrow> string \<Rightarrow> string \<Rightarrow> int \<Rightarrow> 's world
     \<Rightarrow> ((py_error + message option) \<times> 's world) option" where
  "poll_loop be g cid mid deadline w =
     (if now w < deadline then
        (case get_message be cid mid w of
           (None, w1) \<Rightarrow> Some (Inr None, w1)
         | (Some msg, w1) \<Rightarrow>
             if m_status msg = Some ''COMPLETED'' then Some (Inr (Some msg), w1)
             else if m_status msg = Some ''FAILED'' \<or> m_status msg = Some ''CANCELLED''
               then Some (Inr (Some msg), w1)
             else (case sleep (poll_interval g) w1 of
                     Inl e \<Rightarrow> Some (Inl e, w1)
                   | Inr w2 \<Rightarrow> poll_loop be g cid mid deadline w2))
      else Some (Inr None, w))"

definition poll_until_done ::
  "'s backend \<Rightarrow> genie \<Rightarrow> string \<Rightarrow> string \<Rightarrow> 's world
     \<Rightarrow> ((py_error + message option) \<times> 's world) option" where
  "poll_until_done be g cid mid w = poll_loop be g cid mid (now w + max_wait g) w"

text \<open>The error message \<open>_parse_response\<close> reads off a message that did not complete.\<close>

definition error_message :: "message \<Rightarrow> string" where
  "error_message msg =
     (case m_error msg of
        None \<Rightarrow> ''Unknown error''
      | Some (ErrorDict m) \<Rightarrow> (case m of None \<Rightarrow> ''Unknown error'' | Some s \<Rightarrow> s)
      | Some (ErrorOther s) \<Rightarrow> s)"

definition qr_truthy :: "query_result option \<Rightarrow> bool" where
  "qr_truthy qr = (case qr of None \<Rightarrow> False | Some d \<Rightarrow> dict_nonempty d)"

text \<open>
  One turn of the loop over the attachments in \<open>_parse_response\<close>, on the loop's three
  variables and the world.
\<close>

fun attachment_step ::
  "'s backend \<Rightarrow> string \<Rightarrow> string \<Rightarrow> attachment
     \<Rightarrow> (string list \<times> string option \<times> query_result option) \<times> 's world
     \<Rightarrow> (string list \<times> string option \<times> query_result option) \<times> 's world" where
  "attachment_step be cid mid att ((text_parts, sql_text, res_data), w) =
     (let text_parts1 =
            (case a_text att of
               None \<Rightarrow> text_parts
             | Some t \<Rightarrow>
                 (let content = (case t_content t of None \<Rightarrow> [] | Some c \<Rightarrow> c)
                  in if content \<noteq> [] then text_parts @ [content] else text_parts))
      in case a_query att of
           None \<Rightarrow> ((text_parts1, sql_text, res_data), w)
         | Some query_info \<Rightarrow>
             (let description = (case q_description query_info of None \<Rightarrow> [] | Some d \<Rightarrow> d);
                  text_parts2 =
                    (if description \<noteq> [] then text_parts1 @ [description] else text_parts1);
                  sql_text1 = q_query query_info
              in if truthy (a_attachment_id att) then
                   (case get_query_result be cid mid (the (a_attachment_id att)) w of
                      (qr, w1) \<Rightarrow>
                        ((text_parts2, sql_text1, if qr_truthy qr then qr else res_data), w1))
                 else ((text_parts2, sql_text1, res_data), w)))"

definition walk_attachments ::
  "'s backend \<Rightarrow> string \<Rightarrow> string \<Rightarrow> attachment list
     \<Rightarrow> (string list \<times> string option \<times> query_result option) \<times> 's world
     \<Rightarrow> (string list \<times> string option \<times> query_result option) \<times> 's world" where
  "walk_attachments be cid mid atts st = foldl (\<lambda>st att. attachment_step be cid mid att st) st atts"

text \<open>A result with \<open>success\<close> false: the keys it lacks are \<open>None\<close>.\<close>

definition failure :: "string option \<Rightarrow> string option \<Rightarrow> string \<Rightarrow> answer" where
  "failure cid mid msg =
     \<lparr>success = False, conversation_id = cid, message_id = mid, answer_text = None,
      sql = None, result_data = None, attachments = None, error = Some msg\<rparr>"

definition parse_response ::
  "'s backend \<Rightarrow> string \<Rightarrow> string \<Rightarrow> message \<Rightarrow> 's world \<Rightarrow> answer \<times> 's world" where
  "parse_response be cid mid msg w =
     (if m_status msg \<noteq> Some ''COMPLETED'' then
        (failure (Some cid) (Some mid) (error_message msg), w)
      else
        (let atts = (case m_attachments msg of None \<Rightarrow> [] | Some a \<Rightarrow> a)
         in case walk_attachments be cid mid atts (([], None, None), w) of
              ((text_parts, sql_text, res_data), w1) \<Rightarrow>
                (let joined = join [CHR 0x0A, CHR 0x0A] text_parts;
                     response_text =
                       (if joined \<noteq> [] then joined
                        else (case m_content msg of None \<Rightarrow> [] | Some c \<Rightarrow> c))
                 in (\<lparr>success = True, conversation_id = Some cid, message_id = Some mid,
                      answer_text = Some (strip response_text), sql = sql_text,
                      result_data = res_data, attachments = Some atts,
                      error = None\<rparr>, w1))))"

text \<open>
  \<open>ask\<close>, in its four parts: the question is sent, the two identifiers are read off the
  reply, the message is polled, the terminal message is parsed.
\<close>

definition send_question ::
  "'s backend \<Rightarrow> string \<Rightarrow> string option \<Rightarrow> 's world \<Rightarrow> raw_response option \<times> 's world" where
  "send_question be question conv_id w =
     (if truthy conv_id then create_message be (the conv_id) question w
      else start_conversation be question w)"

definition extract_ids :: "raw_response \<Rightarrow> string option \<Rightarrow> string option \<times> string option" where
  "extract_ids raw conv_id =
     (let message_data =
            (case raw_message raw of
               Some m \<Rightarrow> m
             | None \<Rightarrow> \<lparr>i_conversation_id = raw_conversation_id raw, i_id = raw_id raw\<rparr>);
          conv_data_id = (case raw_conversation raw of None \<Rightarrow> None | Some c \<Rightarrow> cv_id c);
          cid = py_or (py_or (i_conversation_id message_data) conv_data_id) conv_id;
          mid = py_or (i_id message_data) (raw_id raw)
      in (cid, mid))"

definition ask ::
  "'s backend \<Rightarrow> genie \<Rightarrow> string \<Rightarrow> string option \<Rightarrow> 's world
     \<Rightarrow> ((py_error + answer) \<times> 's world) option" where
  "ask be g question conv_id w =
     (case send_question be question conv_id w of
        (None, w1) \<Rightarrow> Some (Inr (failure conv_id None ''Failed to send message to Genie''), w1)
      | (Some raw, w1) \<Rightarrow>
          (case extract_ids raw conv_id of
             (cid, mid) \<Rightarrow>
               if \<not> truthy cid \<or> \<not> truthy mid then
                 Some (Inr (failure conv_id None
                              ''Could not extract conversation/message IDs from response''), w1)
               else
                 (case poll_until_done be g (the cid) (the mid) w1 of
                    None \<Rightarrow> None
                  | Some (Inl e, w2) \<Rightarrow> Some (Inl e, w2)
                  | Some (Inr None, w2) \<Rightarrow>
                      Some (Inr (failure cid mid ''Timed out waiting for Genie response''), w2)
                  | Some (Inr (Some completed), w2) \<Rightarrow>
                      (case parse_response be (the cid) (the mid) completed w2 of
                         (ans, w3) \<Rightarrow> Some (Inr ans, w3)))))"

section \<open>The Slack bot\<close>

subsection \<open>Formatting helpers\<close>

text \<open>
  \<open>_strip_mention\<close> removes every match of \<open><@[A-Z0-9]+>\<close>, leftmost first, and strips
  the rest. \<open>match_mention\<close> gives what follows a match at the head of the string.
\<close>

definition is_id_char :: "char \<Rightarrow> bool" where
  "is_id_char c = (let n = (of_char c :: nat) in (65 \<le> n \<and> n \<le> 90) \<or> (48 \<le> n \<and> n \<le> 57))"

definition match_mention :: "string \<Rightarrow> string option" where
  "match_mention s =
     (case s of
        c1 # c2 # r \<Rightarrow>
          if c1 = CHR ''<'' \<and> c2 = CHR ''@'' \<and> takeWhile is_id_char r \<noteq> [] then
            (case dropWhile is_id_char r of
               [] \<Rightarrow> None
             | c # rest \<Rightarrow> if c = CHR ''>'' then Some rest else None)
          else None
      | _ \<Rightarrow> None)"

function remove_mentions :: "string \<Rightarrow> string" where
  "remove_mentions [] = []"
| "remove_mentions (c # cs) =
     (case match_mention (c # cs) of
        Some rest \<Rightarrow> remove_mentions rest
      | None \<Rightarrow> c # remove_mentions cs)"
  by pat_completeness auto
termination
proof (relation "measure length")
  fix c :: char and cs rest :: string
  assume m: "match_mention (c # cs) = Some rest"
  then obtain c2 r where s: "cs = c2 # r"
    by (cases cs) (auto simp: match_mention_def)
  from m s obtain d where d: "dropWhile is_id_char r = d # rest"
    by (auto simp: match_mention_def split: if_splits list.splits)
  have "length (dropWhile is_id_char r) \<le> length r"
    by (rule length_dropWhile_le)
  with d s show "(rest, c # cs) \<in> measure length" by simp
qed simp_all

definition strip_mention :: "string \<Rightarrow> string" where
  "strip_mention t = strip (remove_mentions t)"

definition format_answer :: "answer \<Rightarrow> string" where
  "format_answer result =
     (if \<not> success result then
        ''Sorry, something went wrong: '' @
          (case error result of None \<Rightarrow> ''unknown error'' | Some e \<Rightarrow> e)
      else if truthy (answer_text result) then the (answer_text result)
      else ''Query executed successfully.'')"

definition str_cell :: "cell \<Rightarrow> string" where
  "str_cell v =
     (case v of
        VNone \<Rightarrow> []
      | VStr s \<Rightarrow> s
      | VInt i \<Rightarrow> str_int i
      | VBool b \<Rightarrow> (if b then ''True'' else ''False''))"

definition col_names :: "column list \<Rightarrow> string list" where
  "col_names columns_meta =
     map (\<lambda>(i, c). case c_name c of None \<Rightarrow> ''col_'' @ digits i | Some n \<Rightarrow> n)
       (enumerate 0 columns_meta)"

text \<open>
  The two nested loops that widen \<open>widths\<close> in place. \<open>widths[i]\<close> raises \<open>IndexError\<close>
  when \<open>i\<close> is not an index of the list.
\<close>

fun widen_row :: "nat list \<Rightarrow> (nat \<times> cell) list \<Rightarrow> py_error + nat list" where
  "widen_row widths [] = Inr widths"
| "widen_row widths ((i, val) # rest) =
     (if i < length widths
      then widen_row (widths[i := max (widths ! i) (length (str_cell val))]) rest
      else Inl IndexError)"

fun widen :: "nat list \<Rightarrow> row list \<Rightarrow> py_error + nat list" where
  "widen widths [] = Inr widths"
| "widen widths (r # rs) =
     (case widen_row widths (enumerate 0 r) of
        Inl e \<Rightarrow> Inl e
      | Inr widths1 \<Rightarrow> widen widths1 rs)"

text \<open>
  \<open>fmt_row\<close>: the cells of a row, each cut and padded to the width of its column; \<open>zip\<close>
  stops at the shorter of the row and the widths. The header row is the list of the
  column names, passed as string cells.
\<close>

definition fmt_cells :: "cell list \<Rightarrow> nat list \<Rightarrow> string list" where
  "fmt_cells vals widths = map (\<lambda>(v, w). ljust w (take w (str_cell v))) (zip vals widths)"

definition fmt_row :: "cell list \<Rightarrow> nat list \<Rightarrow> string" where
  "fmt_row vals widths = join '' | '' (fmt_cells vals widths)"

text \<open>The list \<open>lines\<close>: the header row, the separator row, one row for each displayed row.\<close>

definition table_lines :: "string list \<Rightarrow> nat list \<Rightarrow> row list \<Rightarrow> string list" where
  "table_lines names widths display_rows =
     [fmt_row (map VStr names) widths,
      join ''-+-'' (map (\<lambda>w. replicate w CHR ''-'') widths)]
     @ map (\<lambda>r. fmt_row r widths) display_rows"

definition footer :: "data_section option \<Rightarrow> row list \<Rightarrow> int \<Rightarrow> string" where
  "footer data rows max_rows =
     (let total = (case (case data of None \<Rightarrow> None | Some d \<Rightarrow> d_row_count d) of
                     None \<Rightarrow> int (length rows)
                   | Some n \<Rightarrow> n)
      in if total > max_rows
         then [CHR 0x0A] @ ''_Showing '' @ str_int max_rows @ '' of '' @ str_int total @ '' rows_''
         else [])"

definition columns_of :: "query_result \<Rightarrow> column list" where
  "columns_of rd =
     (case r_manifest rd of
        None \<Rightarrow> []
      | Some m \<Rightarrow>
          (case mf_schema m of
             None \<Rightarrow> []
           | Some sc \<Rightarrow> (case s_columns sc of None \<Rightarrow> [] | Some cs \<Rightarrow> cs)))"

definition rows_of :: "query_result \<Rightarrow> row list" where
  "rows_of rd =
     (case r_result rd of
        None \<Rightarrow> []
      | Some d \<Rightarrow> (case d_data_array d of None \<Rightarrow> [] | Some rs \<Rightarrow> rs))"

text \<open>The widths of the columns: the header lengths, widened over the displayed rows, capped at 30.\<close>

definition column_widths :: "string list \<Rightarrow> row list \<Rightarrow> py_error + nat list" where
  "column_widths names display_rows =
     (case widen (map length names) display_rows of
        Inl e \<Rightarrow> Inl e
      | Inr widths \<Rightarrow> Inr (map (\<lambda>w. min w 30) widths))"

text \<open>The returned text: the lines in a code block under a title, then the footer.\<close>

definition code_block :: "string list \<Rightarrow> string \<Rightarrow> string" where
  "code_block lines foot =
     ''*Query Results:*'' @ [CHR 0x0A] @ ''```'' @ [CHR 0x0A]
     @ join [CHR 0x0A] lines @ [CHR 0x0A] @ ''```'' @ foot"

definition format_query_result :: "query_result \<Rightarrow> int \<Rightarrow> py_error + string option" where
  "format_query_result rd max_rows =
     (let columns_meta = columns_of rd;
          rows = rows_of rd
      in if rows = [] \<or> columns_meta = [] then Inr None
         else
           (let names = col_names columns_meta;
                display_rows = slice_to max_rows rows
            in case column_widths names display_rows of
                 Inl e \<Rightarrow> Inl e
               | Inr widths \<Rightarrow>
                   Inr (Some (code_block (table_lines names widths display_rows)
                                (footer (r_result rd) rows max_rows)))))"

subsection \<open>The handlers\<close>

text \<open>
  The bot's two dictionaries. An event and an action body carry the keys the handlers
  read; \<open>channel\<close> and \<open>ts\<close> of an event are read with \<open>event[...]\<close> and are always there.
\<close>

record bot =
  thread_conversations :: "string \<rightharpoonup> string"
  feedback_map :: "string \<rightharpoonup> string \<times> string"

record event =
  ev_bot_id :: "string option"
  ev_text :: "string option"
  ev_channel :: string
  ev_thread_ts :: "string option"
  ev_ts :: string

record action_body =
  b_message_ts :: "string option"
  b_channel_id :: "string option"

definition slack :: "'s backend \<Rightarrow> slack_call \<Rightarrow> 's world \<Rightarrow> string option \<times> 's world" where
  "slack be c w =
     (case slack_api be c (now w) (ext w) of
        (r, s) \<Rightarrow> (r, w\<lparr>ext := s, outbox := outbox w @ [c]\<rparr>))"

text \<open>\<open>_send_feedback_buttons\<close> catches the exception of the Slack call and returns \<open>None\<close>.\<close>

definition send_feedback_buttons ::
  "'s backend \<Rightarrow> string \<Rightarrow> string \<Rightarrow> 's world \<Rightarrow> string option \<times> 's world" where
  "send_feedback_buttons be channel thread_ts w = slack be (PostButtons channel thread_ts) w"

text \<open>The three steps of \<open>_handle_question\<close> after \<open>ask\<close> has returned and the binding is written.\<close>

definition post_table ::
  "'s backend \<Rightarrow> string \<Rightarrow> answer \<Rightarrow> 's world \<Rightarrow> (py_error + unit) \<times> 's world" where
  "post_table be thread_ts result w =
     (if qr_truthy (result_data result) then
        (case format_query_result (the (result_data result)) 15 of
           Inl e \<Rightarrow> (Inl e, w)
         | Inr None \<Rightarrow> (Inr (), w)
         | Inr (Some table_msg) \<Rightarrow>
             if table_msg \<noteq> [] then
               (case slack be (Say table_msg thread_ts) w of
                  (None, w1) \<Rightarrow> (Inl SlackApiError, w1)
                | (Some _, w1) \<Rightarrow> (Inr (), w1))
             else (Inr (), w))
      else (Inr (), w))"

definition post_feedback_prompt ::
  "'s backend \<Rightarrow> string \<Rightarrow> string \<Rightarrow> answer \<Rightarrow> bot \<Rightarrow> 's world \<Rightarrow> bot \<times> 's world" where
  "post_feedback_prompt be channel thread_ts result b w =
     (if success result \<and> truthy (conversation_id result) \<and> truthy (message_id result) then
        (case send_feedback_buttons be channel thread_ts w of
           (None, w1) \<Rightarrow> (b, w1)
         | (Some ts, w1) \<Rightarrow>
             (b\<lparr>feedback_map := (feedback_map b)
                   (ts \<mapsto> (the (conversation_id result), the (message_id result)))\<rparr>, w1))
      else (b, w))"

definition bind_conversation :: "string \<Rightarrow> answer \<Rightarrow> bot \<Rightarrow> bot" where
  "bind_conversation thread_ts result b =
     (if truthy (conversation_id result)
      then b\<lparr>thread_conversations := (thread_conversations b)
                (thread_ts \<mapsto> the (conversation_id result))\<rparr>
      else b)"

definition thread_of :: "event \<Rightarrow> string" where
  "thread_of ev = (if truthy (ev_thread_ts ev) then the (ev_thread_ts ev) else ev_ts ev)"

definition handle_question ::
  "'s backend \<Rightarrow> genie \<Rightarrow> event \<Rightarrow> bot \<Rightarrow> 's world
     \<Rightarrow> ((py_error + unit) \<times> bot \<times> 's world) option" where
  "handle_question be g ev b w =
     (if truthy (ev_bot_id ev) then Some (Inr (), b, w)
      else
        (let txt = strip_mention (case ev_text ev of None \<Rightarrow> [] | Some t \<Rightarrow> t);
             channel = ev_channel ev;
             thread_ts = thread_of ev
         in if strip txt = [] then
              (case slack be (Say ''Please ask me a question about your data!'' thread_ts) w of
                 (None, w1) \<Rightarrow> Some (Inl SlackApiError, b, w1)
               | (Some _, w1) \<Rightarrow> Some (Inr (), b, w1))
            else
              (case slack be (PostMessage channel ''Thinking...'' thread_ts) w of
                 (None, w1) \<Rightarrow> Some (Inl SlackApiError, b, w1)
               | (Some _, w1) \<Rightarrow>
                   (case ask be g txt (thread_conversations b thread_ts) w1 of
                      None \<Rightarrow> None
                    | Some (Inl e, w2) \<Rightarrow> Some (Inl e, b, w2)
                    | Some (Inr result, w2) \<Rightarrow>
                        (let b1 = bind_conversation thread_ts result b
                         in case slack be (Say (format_answer result) thread_ts) w2 of
                              (None, w3) \<Rightarrow> Some (Inl SlackApiError, b1, w3)
                            | (Some _, w3) \<Rightarrow>
                                (case post_table be thread_ts result w3 of
                                   (Inl e, w4) \<Rightarrow> Some (Inl e, b1, w4)
                                 | (Inr _, w4) \<Rightarrow>
                                     (case post_feedback_prompt be channel thread_ts result b1 w4 of
                                        (b2, w5) \<Rightarrow> Some (Inr (), b2, w5))))))))"

text \<open>
  \<open>_handle_feedback\<close>. The exception of \<open>chat_update\<close> is caught, and \<open>send_feedback\<close> raises
  nothing, so the handler always returns.
\<close>

definition handle_feedback ::
  "'s backend \<Rightarrow> action_body \<Rightarrow> string \<Rightarrow> bot \<Rightarrow> 's world \<Rightarrow> bot \<times> 's world" where
  "handle_feedback be body rating b w =
     (let msg_ts = b_message_ts body;
          channel = b_channel_id body;
          info = (case msg_ts of None \<Rightarrow> None | Some ts \<Rightarrow> feedback_map b ts)
      in case info of
           None \<Rightarrow> (b, w)
         | Some (cid, mid) \<Rightarrow>
             (case send_feedback be cid mid rating w of
                (ok, w1) \<Rightarrow>
                  (let label = (if ok then ''Thanks for your feedback!''
                                else ''Failed to submit feedback.'')
                   in case slack be (ChatUpdate channel msg_ts label) w1 of
                        (_, w2) \<Rightarrow> (b, w2))))"

section \<open>Notions the properties are stated with\<close>

text \<open>
  The attachments that carry a query, the attachment ids \<open>_parse_response\<close> fetches a
  result for, and the replies the backend gives to these fetches, one after the other.
\<close>

definition query_attachments :: "attachment list \<Rightarrow> attachment list" where
  "query_attachments atts = filter (\<lambda>a. a_query a \<noteq> None) atts"

definition fetch_ids :: "attachment list \<Rightarrow> string list" where
  "fetch_ids atts =
     map (\<lambda>a. the (a_attachment_id a))
       (filter (\<lambda>a. truthy (a_attachment_id a)) (query_attachments atts))"

fun replies ::
  "'s backend \<Rightarrow> string \<Rightarrow> string \<Rightarrow> string list \<Rightarrow> 's world \<Rightarrow> query_result option list" where
  "replies be cid mid [] w = []"
| "replies be cid mid (i # is) w =
     (case get_query_result be cid mid i w of (r, w1) \<Rightarrow> r # replies be cid mid is w1)"

definition last_or :: "'a \<Rightarrow> 'a list \<Rightarrow> 'a" where
  "last_or d xs = (if xs = [] then d else last xs)"

text \<open>A message that is not in one of the three statuses that end the polling.\<close>

definition pending :: "message \<Rightarrow> bool" where
  "pending msg = (m_status msg \<noteq> Some ''COMPLETED'' \<and> m_status msg \<noteq> Some ''FAILED''
                  \<and> m_status msg \<noteq> Some ''CANCELLED'')"

text \<open>
  The world after \<open>k\<close> turns of the polling loop that each fetched a pending message and
  slept; \<open>None\<close> when the loop does not make \<open>k\<close> such turns.
\<close>

fun pending_rounds ::
  "'s backend \<Rightarrow> genie \<Rightarrow> string \<Rightarrow> string \<Rightarrow> int \<Rightarrow> nat \<Rightarrow> 's world \<Rightarrow> 's world option" where
  "pending_rounds be g cid mid deadline 0 w = Some w"
| "pending_rounds be g cid mid deadline (Suc k) w =
     (if now w < deadline then
        (case get_message be cid mid w of
           (None, w1) \<Rightarrow> None
         | (Some msg, w1) \<Rightarrow>
             if pending msg then
               (case sleep (poll_interval g) w1 of
                  Inl e \<Rightarrow> None
                | Inr w2 \<Rightarrow> pending_rounds be g cid mid deadline k w2)
             else None)
      else None)"

text \<open>
  The largest of the header's length and the lengths of the values in column \<open>i\<close>, over
  the rows that have a value there.
\<close>

definition column_max :: "nat \<Rightarrow> string list \<Rightarrow> row list \<Rightarrow> nat" where
  "column_max i names rs =
     Max (set (length (names ! i)
               # map (\<lambda>r. length (str_cell (r ! i))) (filter (\<lambda>r. i < length r) rs)))"


text \<open>
  Questions handled one after the other. The framework that calls the handler catches
  what it raises, and the bot's dictionaries keep what the handler wrote.
\<close>

fun run_questions ::
  "'s backend \<Rightarrow> genie \<Rightarrow> event list \<Rightarrow> bot \<Rightarrow> 's world \<Rightarrow> (bot \<times> 's world) option" where
  "run_questions be g [] b w = Some (b, w)"
| "run_questions be g (ev # evs) b w =
     (case handle_question be g ev b w of
        None \<Rightarrow> None
      | Some (r, b1, w1) \<Rightarrow> run_questions be g evs b1 w1)"

definition bound_conversation :: "(bot \<times> 's world) option \<Rightarrow> string \<Rightarrow> string option" where
  "bound_conversation r t = (case r of None \<Rightarrow> None | Some (b, w) \<Rightarrow> thread_conversations b t)"

section \<open>Example backends and payloads\<close>

text \<open>
  A backend with fixed replies: to start-conversation, to create-message, to the
  \<open>k\<close>-th status fetch (its state counts them) and to the fetch of a result by
  attachment id. Feedback and Slack calls succeed.
\<close>

definition scripted ::
  "raw_response option \<Rightarrow> raw_response option \<Rightarrow> (nat \<Rightarrow> message option)
     \<Rightarrow> (string \<Rightarrow> query_result option) \<Rightarrow> nat backend" where
  "scripted start follow polls results =
     \<lparr>http_start_conversation = (\<lambda>q t s. (start, s)),
      http_create_message = (\<lambda>c q t s. (follow, s)),
      http_get_message = (\<lambda>c m t s. (polls s, Suc s)),
      http_get_query_result = (\<lambda>c m a t s. (results a, s)),
      http_send_feedback = (\<lambda>c m r t s. (True, s)),
      slack_api = (\<lambda>c t s. (Some ''ts1'', s))\<rparr>"

definition world0 :: "nat world" where
  "world0 = \<lparr>ext = 0, now = 0, trace = [], outbox = []\<rparr>"

definition started :: raw_response where
  "started = \<lparr>raw_message = Some \<lparr>i_conversation_id = Some ''c1'', i_id = Some ''m1''\<rparr>,
              raw_conversation = Some \<lparr>cv_id = Some ''c1''\<rparr>,
              raw_conversation_id = None, raw_id = None\<rparr>"

definition followed :: raw_response where
  "followed = \<lparr>raw_message = None, raw_conversation = None,
               raw_conversation_id = Some ''c2'', raw_id = Some ''m2''\<rparr>"

definition revenue_message :: message where
  "revenue_message =
     \<lparr>m_status = Some ''COMPLETED'', m_error = None,
      m_attachments = Some [\<lparr>a_text = Some \<lparr>t_content = Some ''Revenue is up 12%''\<rparr>,
                             a_query = None, a_attachment_id = None\<rparr>],
      m_content = None\<rparr>"

definition question :: event where
  "question = \<lparr>ev_bot_id = None, ev_text = Some ''<@U123ABC> what is total revenue?'',
               ev_channel = ''C1'', ev_thread_ts = None, ev_ts = ''T1''\<rparr>"

definition genie0 :: genie where
  "genie0 = \<lparr>poll_interval = 2, max_wait = 6\<rparr>"

definition bot0 :: bot where
  "bot0 = \<lparr>thread_conversations = Map.empty, feedback_map = Map.empty\<rparr>"

definition result_one :: query_result where
  "result_one =
     \<lparr>r_manifest = Some \<lparr>mf_schema = Some \<lparr>s_columns = Some [\<lparr>c_name = Some ''x''\<rparr>]\<rparr>\<rparr>,
      r_result = Some \<lparr>d_data_array = Some [[VInt 1], [VInt 2], [VInt 3]],
                   d_row_count = None\<rparr>,
      r_other_keys = False\<rparr>"

definition result_two :: query_result where
  "result_two =
     \<lparr>r_manifest = Some \<lparr>mf_schema = Some \<lparr>s_columns =
                     Some [\<lparr>c_name = Some ''name''\<rparr>, \<lparr>c_name = None\<rparr>]\<rparr>\<rparr>,
      r_result = Some \<lparr>d_data_array =
                     Some [[VStr ''ab'', VNone], [VStr ''abcdefghijklmnopqrstuvwxyz0123456789'']],
                   d_row_count = Some 40\<rparr>,
      r_other_keys = False\<rparr>"


definition ragged_result :: query_result where
  "ragged_result =
     \<lparr>r_manifest = Some \<lparr>mf_schema = Some \<lparr>s_columns = Some [\<lparr>c_name = Some ''x''\<rparr>]\<rparr>\<rparr>,
      r_result = Some \<lparr>d_data_array = Some [[VInt 1, VInt 2]], d_row_count = None\<rparr>,
      r_other_keys = False\<rparr>"

definition results_by_id :: "string \<Rightarrow> query_result option" where
  "results_by_id a = (if a = ''a1'' then Some result_one else if a = ''a2'' then Some result_two else None)"

definition two_queries_message :: message where
  "two_queries_message =
     \<lparr>m_status = Some ''COMPLETED'', m_error = None,
      m_attachments = Some
        [\<lparr>a_text = None, a_query = Some \<lparr>q_description = Some ''first'', q_query = Some ''SELECT 1''\<rparr>,
          a_attachment_id = Some ''a1''\<rparr>,
         \<lparr>a_text = None, a_query = Some \<lparr>q_description = None, q_query = Some ''SELECT 2''\<rparr>,
          a_attachment_id = Some ''a2''\<rparr>],
      m_content = None\<rparr>"

definition executing_message :: message where
  "executing_message =
     \<lparr>m_status = Some ''EXECUTING_QUERY'', m_error = None, m_attachments = None,
      m_content = None\<rparr>"

text \<open>
  A backend that answers a follow-up with another conversation id than the one it was
  sent to, and the bot and the world after it has answered a first question.
\<close>

definition rebinding_backend :: "nat backend" where
  "rebinding_backend =
     scripted (Some started) (Some followed) (\<lambda>k. Some revenue_message) (\<lambda>a. None)"

definition bot1 :: bot where
  "bot1 = \<lparr>thread_conversations = [''T1'' \<mapsto> ''c1''],
           feedback_map = [''ts1'' \<mapsto> (''c1'', ''m1'')]\<rparr>"

definition world1 :: "nat world" where
  "world1 = \<lparr>ext = 1, now = 0,
             trace = [StartConversation ''what is total revenue?'', GetMessage ''c1'' ''m1''],
             outbox = [PostMessage ''C1'' ''Thinking...'' ''T1'', Say ''Revenue is up 12%'' ''T1'',
                       PostButtons ''C1'' ''T1'']\<rparr>"

definition revenue_answer :: "string \<Rightarrow> string \<Rightarrow> answer" where
  "revenue_answer cid mid =
     \<lparr>success = True, conversation_id = Some cid, message_id = Some mid,
      answer_text = Some ''Revenue is up 12%'', sql = None, result_data = None,
      attachments = m_attachments revenue_message, error = None\<rparr>"

section \<open>Parsing a completed message\<close>

lemma last_or_simps [simp]: "last_or d [] = d" "last_or d (x # xs) = last_or x xs"
  by (auto simp: last_or_def)

lemma walk_Nil: "walk_attachments be cid mid [] st = st"
  by (simp add: walk_attachments_def)

lemma walk_Cons:
  "walk_attachments be cid mid (a # atts) st =
     walk_attachments be cid mid atts (attachment_step be cid mid a st)"
  by (simp add: walk_attachments_def)

lemma trace_get_query_result:
  "get_query_result be cid mid i w = (r, w1) \<Longrightarrow> trace w1 = trace w @ [GetQueryResult cid mid i]"
  by (auto simp: get_query_result_def split: prod.splits)

lemma walk_char:
  "walk_attachments be cid mid atts ((tp, sq, rd), w) = ((tp', sq', rd'), w') \<Longrightarrow>
     sq' = last_or sq (map (\<lambda>a. q_query (the (a_query a))) (query_attachments atts)) \<and>
     rd' = last_or rd (filter qr_truthy (replies be cid mid (fetch_ids atts) w)) \<and>
     trace w' = trace w @ map (GetQueryResult cid mid) (fetch_ids atts)"
proof (induction atts arbitrary: tp sq rd w)
  case Nil
  then show ?case by (simp add: walk_Nil query_attachments_def fetch_ids_def)
next
  case (Cons a atts)
  obtain tp1 sq1 rd1 w1 where st: "attachment_step be cid mid a ((tp, sq, rd), w) = ((tp1, sq1, rd1), w1)"
    by (metis prod_cases3 surj_pair)
  with Cons.prems have "walk_attachments be cid mid atts ((tp1, sq1, rd1), w1) = ((tp', sq', rd'), w')"
    by (simp add: walk_Cons)
  from Cons.IH [OF this] have ih:
    "sq' = last_or sq1 (map (\<lambda>a. q_query (the (a_query a))) (query_attachments atts))"
    "rd' = last_or rd1 (filter qr_truthy (replies be cid mid (fetch_ids atts) w1))"
    "trace w' = trace w1 @ map (GetQueryResult cid mid) (fetch_ids atts)"
    by auto
  show ?case
  proof (cases "a_query a")
    case None
    with st have "sq1 = sq" "rd1 = rd" "w1 = w" by (auto simp: Let_def)
    with ih None show ?thesis by (simp add: query_attachments_def fetch_ids_def)
  next
    case (Some q)
    show ?thesis
    proof (cases "truthy (a_attachment_id a)")
      case False
      with st Some have "sq1 = q_query q" "rd1 = rd" "w1 = w" by (auto simp: Let_def)
      with ih Some False show ?thesis by (simp add: query_attachments_def fetch_ids_def)
    next
      case True
      obtain r where g: "get_query_result be cid mid (the (a_attachment_id a)) w = (r, w1)"
        and s1: "sq1 = q_query q" and r1: "rd1 = (if qr_truthy r then r else rd)"
        using st Some True by (auto simp: Let_def split: prod.splits)
      from g have "trace w1 = trace w @ [GetQueryResult cid mid (the (a_attachment_id a))]"
        by (rule trace_get_query_result)
      with ih Some True g s1 r1 show ?thesis
        by (simp add: query_attachments_def fetch_ids_def)
    qed
  qed
qed

text \<open>
  C1. For a message with status COMPLETED, \<open>_parse_response\<close> returns a successful answer
  whose \<open>sql\<close> is the query string of the last attachment that carries a query (\<open>None\<close>
  when none does); it fetches a result for each query attachment with a non-empty
  attachment id, in order, so the first such attachment is fetched first, and these are
  the only requests; \<open>result_data\<close> is the last non-empty result these fetches returned
  (\<open>None\<close> when none did). With several query attachments the last query string and the
  last fetched result win.
\<close>

theorem parse_last_query_wins:
  assumes "m_status msg = Some ''COMPLETED''"
    and "atts = (case m_attachments msg of None \<Rightarrow> [] | Some a \<Rightarrow> a)"
  shows "case parse_response be cid mid msg w of
           (ans, w') \<Rightarrow>
             success ans \<and>
             sql ans = last_or None (map (\<lambda>a. q_query (the (a_query a))) (query_attachments atts)) \<and>
             trace w' = trace w @ map (GetQueryResult cid mid) (fetch_ids atts) \<and>
             result_data ans
               = last_or None (filter qr_truthy (replies be cid mid (fetch_ids atts) w))"
proof -
  obtain tp sq rd w1 where wk: "walk_attachments be cid mid atts (([], None, None), w) = ((tp, sq, rd), w1)"
    by (metis prod_cases3 surj_pair)
  from walk_char [OF wk] assms wk show ?thesis
    by (simp add: parse_response_def Let_def)
qed

theorem parse_last_query_wins_witness:
  "m_status two_queries_message = Some ''COMPLETED'' \<and>
   sql (fst (parse_response (scripted None None (\<lambda>k. None) results_by_id) ''c1'' ''m1''
               two_queries_message world0)) = Some ''SELECT 2'' \<and>
   result_data (fst (parse_response (scripted None None (\<lambda>k. None) results_by_id) ''c1'' ''m1''
               two_queries_message world0)) = Some result_two \<and>
   trace (snd (parse_response (scripted None None (\<lambda>k. None) results_by_id) ''c1'' ''m1''
               two_queries_message world0))
     = [GetQueryResult ''c1'' ''m1'' ''a1'', GetQueryResult ''c1'' ''m1'' ''a2'']"
  using parse_last_query_wins [where msg = two_queries_message
      and be = "scripted None None (\<lambda>k. None) results_by_id"
      and cid = "''c1''" and mid = "''m1''" and w = world0, OF _ refl]
  by (simp add: two_queries_message_def query_attachments_def fetch_ids_def truthy_def
      get_query_result_def scripted_def results_by_id_def qr_truthy_def dict_nonempty_def
      result_one_def result_two_def world0_def case_prod_beta)

text \<open>
  C8. A completed message whose attachments are exactly one text attachment with content
  "Revenue is up 12%" and no query is parsed to an answer with that text, no generated
  query and no query result; nothing is requested from the backend.
\<close>

theorem parse_text_only:
  "parse_response be cid mid
     \<lparr>m_status = Some ''COMPLETED'', m_error = e,
      m_attachments = Some [\<lparr>a_text = Some \<lparr>t_content = Some ''Revenue is up 12%''\<rparr>,
                             a_query = None, a_attachment_id = aid\<rparr>],
      m_content = c\<rparr> w
   = (\<lparr>success = True, conversation_id = Some cid, message_id = Some mid,
       answer_text = Some ''Revenue is up 12%'', sql = None, result_data = None,
       attachments = Some [\<lparr>a_text = Some \<lparr>t_content = Some ''Revenue is up 12%''\<rparr>,
                             a_query = None, a_attachment_id = aid\<rparr>],
       error = None\<rparr>, w)"
  by (simp add: parse_response_def walk_attachments_def strip_def is_space_def Let_def)

theorem parse_text_only_witness:
  "answer_text (fst (parse_response (scripted None None (\<lambda>k. None) (\<lambda>a. None)) ''c1'' ''m1''
                       revenue_message world0)) = Some ''Revenue is up 12%'' \<and>
   sql (fst (parse_response (scripted None None (\<lambda>k. None) (\<lambda>a. None)) ''c1'' ''m1''
                       revenue_message world0)) = None \<and>
   result_data (fst (parse_response (scripted None None (\<lambda>k. None) (\<lambda>a. None)) ''c1'' ''m1''
                       revenue_message world0)) = None"
  using parse_text_only [of "scripted None None (\<lambda>k. None) (\<lambda>a. None)" "''c1''" "''m1''"
      None None None world0]
  by (simp add: revenue_message_def)

section \<open>The polling loop and \<open>ask\<close>\<close>

lemma poll_loop_expired:
  "\<not> now w < deadline \<Longrightarrow> poll_loop be g cid mid deadline w = Some (Inr None, w)"
  by (subst poll_loop.simps) simp

lemma poll_loop_failed_fetch:
  "now w < deadline \<Longrightarrow> get_message be cid mid w = (None, w1) \<Longrightarrow>
     poll_loop be g cid mid deadline w = Some (Inr None, w1)"
  by (subst poll_loop.simps) simp

lemma poll_loop_terminal:
  "now w < deadline \<Longrightarrow> get_message be cid mid w = (Some msg, w1) \<Longrightarrow> \<not> pending msg \<Longrightarrow>
     poll_loop be g cid mid deadline w = Some (Inr (Some msg), w1)"
  by (subst poll_loop.simps) (auto simp: pending_def)

lemma poll_loop_pending:
  "now w < deadline \<Longrightarrow> get_message be cid mid w = (Some msg, w1) \<Longrightarrow> pending msg \<Longrightarrow>
     sleep (poll_interval g) w1 = Inr w2 \<Longrightarrow>
     poll_loop be g cid mid deadline w = poll_loop be g cid mid deadline w2"
  by (subst poll_loop.simps) (auto simp: pending_def)

lemma scripted_simps:
  "http_start_conversation (scripted st fo ps rs) = (\<lambda>q t s. (st, s))"
  "http_create_message (scripted st fo ps rs) = (\<lambda>c q t s. (fo, s))"
  "http_get_message (scripted st fo ps rs) = (\<lambda>c m t s. (ps s, Suc s))"
  "http_get_query_result (scripted st fo ps rs) = (\<lambda>c m a t s. (rs a, s))"
  "http_send_feedback (scripted st fo ps rs) = (\<lambda>c m r t s. (True, s))"
  "slack_api (scripted st fo ps rs) = (\<lambda>c t s. (Some ''ts1'', s))"
  by (simp_all add: scripted_def)

lemma parse_revenue:
  "parse_response be cid mid revenue_message w = (revenue_answer cid mid, w)"
  by (simp add: revenue_message_def revenue_answer_def parse_response_def walk_attachments_def
      strip_def is_space_def Let_def)

lemma poll_instant:
  "poll_until_done (scripted st fo (\<lambda>k. Some revenue_message) rs) genie0 cid mid w
     = Some (Inr (Some revenue_message), w\<lparr>ext := Suc (ext w), trace := trace w @ [GetMessage cid mid]\<rparr>)"
  unfolding poll_until_done_def
  by (rule poll_loop_terminal)
     (simp_all add: genie0_def get_message_def scripted_def pending_def revenue_message_def)

lemma ask_start_instant:
  "ask (scripted (Some started) fo (\<lambda>k. Some revenue_message) rs) genie0 q None w
     = Some (Inr (revenue_answer ''c1'' ''m1''),
             w\<lparr>ext := Suc (ext w), trace := trace w @ [StartConversation q, GetMessage ''c1'' ''m1'']\<rparr>)"
  by (simp add: ask_def send_question_def truthy_def start_conversation_def extract_ids_def
      py_or_def started_def poll_instant parse_revenue Let_def scripted_simps)

lemma ask_follow_instant:
  "ask (scripted st (Some followed) (\<lambda>k. Some revenue_message) rs) genie0 q (Some ''c1'') w
     = Some (Inr (revenue_answer ''c2'' ''m2''),
             w\<lparr>ext := Suc (ext w),
               trace := trace w @ [CreateMessage ''c1'' q, GetMessage ''c2'' ''m2'']\<rparr>)"
  by (simp add: ask_def send_question_def truthy_def create_message_def extract_ids_def
      py_or_def followed_def poll_instant parse_revenue Let_def scripted_simps)

lemma poll_loop_rounds:
  "pending_rounds be g cid mid deadline k w = Some wk \<Longrightarrow>
     poll_loop be g cid mid deadline w = poll_loop be g cid mid deadline wk"
proof (induction k arbitrary: w)
  case 0
  then show ?case by simp
next
  case (Suc k)
  from Suc.prems obtain msg w1 w2 where
    t: "now w < deadline" and g: "get_message be cid mid w = (Some msg, w1)"
    and p: "pending msg" and s: "sleep (poll_interval g) w1 = Inr w2"
    and r: "pending_rounds be g cid mid deadline k w2 = Some wk"
    by (auto split: if_splits prod.splits option.splits sum.splits)
  from poll_loop_pending [OF t g p s] Suc.IH [OF r] show ?case by simp
qed

lemma trace_pending_rounds:
  "pending_rounds be g cid mid deadline k w = Some wk \<Longrightarrow>
     trace wk = trace w @ replicate k (GetMessage cid mid)"
proof (induction k arbitrary: w)
  case 0
  then show ?case by simp
next
  case (Suc k)
  from Suc.prems obtain msg w1 w2 where
    g: "get_message be cid mid w = (Some msg, w1)"
    and s: "sleep (poll_interval g) w1 = Inr w2"
    and r: "pending_rounds be g cid mid deadline k w2 = Some wk"
    by (auto split: if_splits prod.splits option.splits sum.splits)
  from g have "trace w1 = trace w @ [GetMessage cid mid]"
    by (auto simp: get_message_def split: prod.splits)
  moreover from s have "trace w2 = trace w1"
    by (auto simp: sleep_def split: if_splits)
  ultimately show ?case using Suc.IH [OF r] by (simp add: replicate_app_Cons_same)
qed

lemma ceil_div_step:
  fixes d p :: int
  assumes "0 < p" "0 < d"
  shows "nat ((d + p - 1) div p) = Suc (nat ((d - 1) div p))"
proof -
  have "(d - 1 + 1 * p) div p = 1 + (d - 1) div p"
    using assms(1) by (intro div_mult_self1) simp
  then have "(d + p - 1) div p = (d - 1) div p + 1"
    by (simp add: algebra_simps)
  moreover have "0 \<le> (d - 1) div p" using assms by (simp add: pos_imp_zdiv_nonneg_iff)
  ultimately show ?thesis by simp
qed

lemma ceil_div_nonpos:
  fixes d p :: int
  assumes "0 < p" "d \<le> 0"
  shows "(d + p - 1) div p \<le> 0"
proof -
  have "(d + p - 1) div p \<le> (p - 1) div p"
    using assms by (intro zdiv_mono1) auto
  also have "(p - 1) div p = 0" using assms(1) by simp
  finally show ?thesis .
qed

lemma ceil_div_bounds:
  fixes d p :: int
  assumes "0 < p" "0 \<le> d"
  shows "d \<le> p * int (nat ((d + p - 1) div p))" "p * int (nat ((d + p - 1) div p)) < d + p"
proof -
  have nn: "0 \<le> (d + p - 1) div p" using assms by (simp add: pos_imp_zdiv_nonneg_iff)
  have m: "p * ((d + p - 1) div p) = (d + p - 1) - (d + p - 1) mod p"
    by (simp add: minus_mod_eq_mult_div)
  have "0 \<le> (d + p - 1) mod p" "(d + p - 1) mod p < p" using assms(1) by simp_all
  with m nn show "d \<le> p * int (nat ((d + p - 1) div p))" "p * int (nat ((d + p - 1) div p)) < d + p"
    by simp_all
qed

lemma poll_loop_timeout:
  assumes p: "0 < poll_interval g"
    and h: "\<forall>t s. t < deadline \<longrightarrow>
              (\<exists>msg s'. http_get_message be cid mid t s = (Some msg, s') \<and> pending msg)"
  shows "\<exists>w'. poll_loop be g cid mid deadline w = Some (Inr None, w') \<and>
           trace w' = trace w @ replicate (nat ((deadline - now w + poll_interval g - 1)
                                             div poll_interval g)) (GetMessage cid mid) \<and>
           outbox w' = outbox w"
proof (induction "nat (deadline - now w)" arbitrary: w rule: less_induct)
  case less
  show ?case
  proof (cases "now w < deadline")
    case False
    then have "(deadline - now w + poll_interval g - 1) div poll_interval g \<le> 0"
      using p by (intro ceil_div_nonpos) auto
    with False show ?thesis by (simp add: poll_loop_expired)
  next
    case True
    with h obtain msg s' where
      hg: "http_get_message be cid mid (now w) (ext w) = (Some msg, s')" and pm: "pending msg"
      by blast
    define w1 where "w1 = w\<lparr>ext := s', trace := trace w @ [GetMessage cid mid]\<rparr>"
    define w2 where "w2 = w1\<lparr>now := now w1 + poll_interval g\<rparr>"
    have g: "get_message be cid mid w = (Some msg, w1)"
      using hg by (simp add: get_message_def w1_def)
    have s: "sleep (poll_interval g) w1 = Inr w2"
      using p by (simp add: sleep_def w2_def)
    have n2: "now w2 = now w + poll_interval g" by (simp add: w2_def w1_def)
    with True p have "nat (deadline - now w2) < nat (deadline - now w)" by simp
    from less [OF this] obtain w' where
      r: "poll_loop be g cid mid deadline w2 = Some (Inr None, w')"
      and t: "trace w' = trace w2 @ replicate (nat ((deadline - now w2 + poll_interval g - 1)
                                             div poll_interval g)) (GetMessage cid mid)"
      and o: "outbox w' = outbox w2"
      by blast
    have c: "nat ((deadline - now w + poll_interval g - 1) div poll_interval g)
        = Suc (nat ((deadline - now w - 1) div poll_interval g))"
      using True p by (intro ceil_div_step) auto
    have e: "deadline - now w2 + poll_interval g - 1 = deadline - now w - 1"
      using n2 by simp
    have t2: "trace w2 = trace w @ [GetMessage cid mid]" and o2: "outbox w2 = outbox w"
      by (simp_all add: w2_def w1_def)
    have "trace w' = trace w @ replicate (nat ((deadline - now w + poll_interval g - 1)
                                             div poll_interval g)) (GetMessage cid mid)"
      unfolding t e t2 c by simp
    with poll_loop_pending [OF True g pm s] r o o2 show ?thesis by simp
  qed
qed


lemma ask_polls:
  assumes "send_question be q conv w = (Some raw, w1)"
    and "extract_ids raw conv = (Some cid, Some mid)" and "cid \<noteq> []" and "mid \<noteq> []"
    and "poll_until_done be g cid mid w1 = Some (Inr None, w2)"
  shows "ask be g q conv w
           = Some (Inr (failure (Some cid) (Some mid) ''Timed out waiting for Genie response''), w2)"
  using assms by (simp add: ask_def truthy_def)

text \<open>
  C3. Take a poll interval above 0 and a maximal wait of at least 0, a question that was
  sent and answered with both identifiers, and a backend that answers every status fetch
  before the deadline with a message that is not COMPLETED, FAILED or CANCELLED. In this
  model, where each turn of the loop moves the clock by the poll interval, \<open>ask\<close> returns
  an answer with \<open>success\<close> false and the error "Timed out waiting for Genie response",
  after exactly \<open>n\<close> status fetches, \<open>n\<close> being \<open>max_wait / poll_interval\<close> rounded up:
  \<open>max_wait \<le> poll_interval * n < max_wait + poll_interval\<close>.
\<close>

theorem ask_times_out:
  assumes "0 < poll_interval g" and "0 \<le> max_wait g"
    and "send_question be q conv w = (Some raw, w1)"
    and "extract_ids raw conv = (Some cid, Some mid)" and "cid \<noteq> []" and "mid \<noteq> []"
    and "\<forall>t s. t < now w1 + max_wait g \<longrightarrow>
           (\<exists>msg s'. http_get_message be cid mid t s = (Some msg, s') \<and> pending msg)"
    and "n = nat ((max_wait g + poll_interval g - 1) div poll_interval g)"
  shows "\<exists>ans w'. ask be g q conv w = Some (Inr ans, w') \<and>
           \<not> success ans \<and> error ans = Some ''Timed out waiting for Genie response'' \<and>
           trace w' = trace w1 @ replicate n (GetMessage cid mid) \<and>
           max_wait g \<le> poll_interval g * int n \<and>
           poll_interval g * int n < max_wait g + poll_interval g"
proof -
  from poll_loop_timeout [OF assms(1,7), of w1] obtain w' where
    p: "poll_loop be g cid mid (now w1 + max_wait g) w1 = Some (Inr None, w')"
    and t: "trace w' = trace w1 @ replicate (nat ((now w1 + max_wait g - now w1 + poll_interval g - 1)
                                             div poll_interval g)) (GetMessage cid mid)"
    by blast
  from p have "poll_until_done be g cid mid w1 = Some (Inr None, w')"
    by (simp add: poll_until_done_def)
  from ask_polls [OF assms(3-6) this]
  have a: "ask be g q conv w
           = Some (Inr (failure (Some cid) (Some mid) ''Timed out waiting for Genie response''), w')" .
  from t assms(8) have t': "trace w' = trace w1 @ replicate n (GetMessage cid mid)" by simp
  from ceil_div_bounds [OF assms(1,2)] assms(8)
  have "max_wait g \<le> poll_interval g * int n" "poll_interval g * int n < max_wait g + poll_interval g"
    by simp_all
  with a t' show ?thesis by (simp add: failure_def)
qed

theorem ask_times_out_witness:
  "\<exists>ans w'. ask (scripted (Some started) None (\<lambda>k. Some executing_message) (\<lambda>a. None)) genie0
              ''q'' None world0 = Some (Inr ans, w')
         \<and> \<not> success ans \<and> error ans = Some ''Timed out waiting for Genie response''
         \<and> trace w' = [StartConversation ''q'', GetMessage ''c1'' ''m1'', GetMessage ''c1'' ''m1'',
                        GetMessage ''c1'' ''m1'']"
  using ask_times_out [of genie0 "scripted (Some started) None (\<lambda>k. Some executing_message) (\<lambda>a. None)"
      "''q''" None world0 started "world0\<lparr>trace := [StartConversation ''q'']\<rparr>" "''c1''" "''m1''" 3]
  by (auto simp: genie0_def send_question_def truthy_def start_conversation_def scripted_simps
      world0_def extract_ids_def py_or_def started_def Let_def pending_def executing_message_def
      failure_def eval_nat_numeral)

text \<open>
  C4. When, after \<open>k\<close> turns of the loop that fetched a pending message, the loop enters
  another turn and the status fetch there fails, \<open>ask\<close> returns in the world that fetch
  left: the failed fetch is the last request (\<open>k + 1\<close> status fetches in all, no sleep
  after it), and the answer has \<open>success\<close> false and the error "Timed out waiting for
  Genie response".
\<close>

theorem ask_poll_transport_failure:
  assumes "send_question be q conv w = (Some raw, w1)"
    and "extract_ids raw conv = (Some cid, Some mid)" and "cid \<noteq> []" and "mid \<noteq> []"
    and "pending_rounds be g cid mid (now w1 + max_wait g) k w1 = Some wk"
    and "now wk < now w1 + max_wait g"
    and "http_get_message be cid mid (now wk) (ext wk) = (None, s')"
  shows "\<exists>ans w'. ask be g q conv w = Some (Inr ans, w') \<and>
           \<not> success ans \<and> error ans = Some ''Timed out waiting for Genie response'' \<and>
           w' = wk\<lparr>ext := s', trace := trace wk @ [GetMessage cid mid]\<rparr> \<and>
           trace w' = trace w1 @ replicate (Suc k) (GetMessage cid mid)"
proof -
  let ?w' = "wk\<lparr>ext := s', trace := trace wk @ [GetMessage cid mid]\<rparr>"
  from assms(7) have "get_message be cid mid wk = (None, ?w')"
    by (simp add: get_message_def)
  from poll_loop_failed_fetch [OF assms(6) this]
  have "poll_loop be g cid mid (now w1 + max_wait g) wk = Some (Inr None, ?w')" .
  with poll_loop_rounds [OF assms(5)]
  have "poll_until_done be g cid mid w1 = Some (Inr None, ?w')"
    by (simp add: poll_until_done_def)
  from ask_polls [OF assms(1-4) this]
  have a: "ask be g q conv w
           = Some (Inr (failure (Some cid) (Some mid) ''Timed out waiting for Genie response''), ?w')" .
  from trace_pending_rounds [OF assms(5)]
  have "trace ?w' = trace w1 @ replicate (Suc k) (GetMessage cid mid)"
    by (simp add: replicate_append_same)
  with a show ?thesis by (simp add: failure_def)
qed

theorem ask_poll_transport_failure_witness:
  "\<exists>ans. ask (scripted (Some started) None (\<lambda>k. if k < 2 then Some executing_message else None)
                  (\<lambda>a. None)) genie0 ''q'' None world0
           = Some (Inr ans,
                   \<lparr>ext = 3, now = 4,
                    trace = [StartConversation ''q'', GetMessage ''c1'' ''m1'',
                             GetMessage ''c1'' ''m1'', GetMessage ''c1'' ''m1''],
                    outbox = []\<rparr>)
         \<and> \<not> success ans \<and> error ans = Some ''Timed out waiting for Genie response''"
  using ask_poll_transport_failure [of
      "scripted (Some started) None (\<lambda>k. if k < 2 then Some executing_message else None) (\<lambda>a. None)"
      "''q''" None world0 started "world0\<lparr>trace := [StartConversation ''q'']\<rparr>" "''c1''" "''m1''"
      genie0 "Suc (Suc 0)"
      "\<lparr>ext = 2, now = 4, trace = [StartConversation ''q'', GetMessage ''c1'' ''m1'',
                             GetMessage ''c1'' ''m1''], outbox = []\<rparr>" 3]
  by (auto simp: genie0_def send_question_def truthy_def start_conversation_def scripted_simps
      world0_def extract_ids_def py_or_def started_def Let_def pending_def executing_message_def
      get_message_def sleep_def)



section \<open>Feedback\<close>

text \<open>
  C9. A feedback action on a message whose id has no binding in the feedback map does
  nothing: the bot's two dictionaries and the world are as before, so no request went to
  the backend (\<open>send_feedback\<close> is never called) and no Slack call was made.
\<close>

theorem feedback_without_binding:
  assumes "\<forall>ts. b_message_ts body = Some ts \<longrightarrow> feedback_map b ts = None"
  shows "handle_feedback be body rating b w = (b, w)"
  using assms by (cases "b_message_ts body") (simp_all add: handle_feedback_def)

theorem feedback_without_binding_witness:
  "handle_feedback (scripted None None (\<lambda>k. None) (\<lambda>a. None))
     \<lparr>b_message_ts = Some ''ts9'', b_channel_id = Some ''C1''\<rparr> ''POSITIVE'' bot0 world0
   = (bot0, world0)"
  using feedback_without_binding [of "\<lparr>b_message_ts = Some ''ts9'', b_channel_id = Some ''C1''\<rparr>" bot0]
  by (simp add: bot0_def)

section \<open>The result table\<close>

lemma widen_row_ok:
  "k + length r \<le> length ws \<Longrightarrow>
     \<exists>ws'. widen_row ws (enumerate k r) = Inr ws' \<and> length ws' = length ws \<and>
       (\<forall>i<length ws. ws' ! i = (if k \<le> i \<and> i < k + length r
                                  then max (ws ! i) (length (str_cell (r ! (i - k)))) else ws ! i))"
proof (induction r arbitrary: k ws)
  case Nil
  then show ?case by simp
next
  case (Cons v r)
  let ?ws1 = "ws[k := max (ws ! k) (length (str_cell v))]"
  from Cons.prems have k: "k < length ws" by simp
  from Cons.prems have "Suc k + length r \<le> length ?ws1" by simp
  from Cons.IH [OF this] obtain ws' where
    w: "widen_row ?ws1 (enumerate (Suc k) r) = Inr ws'" and l: "length ws' = length ws"
    and n: "\<forall>i<length ws. ws' ! i = (if Suc k \<le> i \<and> i < Suc k + length r
                                  then max (?ws1 ! i) (length (str_cell (r ! (i - Suc k)))) else ?ws1 ! i)"
    by auto
  have "widen_row ws (enumerate k (v # r)) = Inr ws'" using k w by simp
  moreover have "ws' ! i = (if k \<le> i \<and> i < k + length (v # r)
                                  then max (ws ! i) (length (str_cell ((v # r) ! (i - k)))) else ws ! i)"
    if "i < length ws" for i
  proof (cases "i = k")
    case True
    with n that k show ?thesis by simp
  next
    case False
    with n that k show ?thesis by (auto simp: nth_Cons')
  qed
  ultimately show ?case using l by blast
qed

lemma widen_row_bad:
  "length ws < k + length r \<Longrightarrow> k \<le> length ws \<Longrightarrow> widen_row ws (enumerate k r) = Inl IndexError"
proof (induction r arbitrary: k ws)
  case Nil
  then show ?case by simp
next
  case (Cons v r)
  show ?case
  proof (cases "k < length ws")
    case True
    with Cons.prems have "widen_row (ws[k := max (ws ! k) (length (str_cell v))]) (enumerate (Suc k) r) = Inl IndexError"
      by (intro Cons.IH) auto
    with True show ?thesis by simp
  next
    case False
    then show ?thesis by simp
  qed
qed

lemma Max_insert_max: "finite S \<Longrightarrow> Max (insert (max a b) S) = Max (insert a (insert b S))" for a :: nat
  by (cases "S = {}") (simp_all add: max.assoc)

lemma widen_ok:
  "\<forall>r\<in>set rs. length r \<le> length ws \<Longrightarrow>
     \<exists>ws'. widen ws rs = Inr ws' \<and> length ws' = length ws \<and>
       (\<forall>i<length ws. ws' ! i =
           Max (set (ws ! i # map (\<lambda>r. length (str_cell (r ! i))) (filter (\<lambda>r. i < length r) rs))))"
proof (induction rs arbitrary: ws)
  case Nil
  then show ?case by simp
next
  case (Cons r rs)
  from Cons.prems have "0 + length r \<le> length ws" by simp
  from widen_row_ok [OF this] obtain ws1 where
    w1: "widen_row ws (enumerate 0 r) = Inr ws1" and l1: "length ws1 = length ws"
    and n1: "\<forall>i<length ws. ws1 ! i = (if i < length r then max (ws ! i) (length (str_cell (r ! i))) else ws ! i)"
    by auto
  from Cons.prems l1 have "\<forall>r\<in>set rs. length r \<le> length ws1" by simp
  from Cons.IH [OF this] obtain ws' where
    w: "widen ws1 rs = Inr ws'" and l: "length ws' = length ws1"
    and n: "\<forall>i<length ws1. ws' ! i =
           Max (set (ws1 ! i # map (\<lambda>r. length (str_cell (r ! i))) (filter (\<lambda>r. i < length r) rs)))"
    by auto
  have "widen ws (r # rs) = Inr ws'" using w1 w by simp
  moreover have "ws' ! i = Max (set (ws ! i # map (\<lambda>r. length (str_cell (r ! i))) (filter (\<lambda>r. i < length r) (r # rs))))"
    if "i < length ws" for i
  proof -
    define S where "S = set (map (\<lambda>r. length (str_cell (r ! i))) (filter (\<lambda>r. i < length r) rs))"
    have fin: "finite S" by (simp add: S_def)
    from that l1 n have a: "ws' ! i = Max (insert (ws1 ! i) S)" by (simp add: S_def)
    show ?thesis
    proof (cases "i < length r")
      case True
      with n1 that have "ws1 ! i = max (ws ! i) (length (str_cell (r ! i)))" by simp
      with a have "ws' ! i = Max (insert (ws ! i) (insert (length (str_cell (r ! i))) S))"
        by (simp add: Max_insert_max [OF fin])
      with True show ?thesis by (simp add: S_def)
    next
      case False
      with n1 that have "ws1 ! i = ws ! i" by simp
      with a False show ?thesis by (simp add: S_def)
    qed
  qed
  ultimately show ?case using l l1 by auto
qed

lemma widen_bad:
  "\<exists>r\<in>set rs. length ws < length r \<Longrightarrow> widen ws rs = Inl IndexError"
proof (induction rs arbitrary: ws)
  case Nil
  then show ?case by simp
next
  case (Cons r rs)
  show ?case
  proof (cases "length ws < length r")
    case True
    then have "widen_row ws (enumerate 0 r) = Inl IndexError"
      by (intro widen_row_bad) auto
    then show ?thesis by simp
  next
    case False
    then have "0 + length r \<le> length ws" by simp
    from widen_row_ok [OF this] obtain ws1 where
      w1: "widen_row ws (enumerate 0 r) = Inr ws1" and l1: "length ws1 = length ws"
      by auto
    from Cons.prems False l1 have "\<exists>r\<in>set rs. length ws1 < length r" by auto
    from Cons.IH [OF this] w1 show ?thesis by simp
  qed
qed


lemma length_col_names: "length (col_names cs) = length cs"
  by (simp add: col_names_def)

lemma column_widths_ok:
  assumes "\<forall>r\<in>set rs. length r \<le> length names"
  shows "\<exists>ws. column_widths names rs = Inr ws \<and> length ws = length names \<and>
           (\<forall>i<length names. ws ! i = min (column_max i names rs) 30)"
proof -
  from assms have "\<forall>r\<in>set rs. length r \<le> length (map length names)" by simp
  from widen_ok [OF this] obtain ws' where
    w: "widen (map length names) rs = Inr ws'" and l: "length ws' = length names"
    and n: "\<forall>i<length names. ws' ! i =
           Max (set (map length names ! i # map (\<lambda>r. length (str_cell (r ! i))) (filter (\<lambda>r. i < length r) rs)))"
    by auto
  have "column_widths names rs = Inr (map (\<lambda>w. min w 30) ws')"
    using w by (simp add: column_widths_def)
  moreover have "\<forall>i<length names. map (\<lambda>w. min w 30) ws' ! i = min (column_max i names rs) 30"
    using n l by (simp add: column_max_def)
  ultimately show ?thesis using l by simp
qed

lemma column_widths_bad:
  "\<exists>r\<in>set rs. length names < length r \<Longrightarrow> column_widths names rs = Inl IndexError"
  using widen_bad [of rs "map length names"] by (simp add: column_widths_def)


lemma length_fmt_cells: "length (fmt_cells vals ws) = min (length vals) (length ws)"
  by (simp add: fmt_cells_def)



lemma format_query_result_ok:
  assumes "rows_of rd \<noteq> []" "columns_of rd \<noteq> []"
    and "column_widths (col_names (columns_of rd)) (slice_to m (rows_of rd)) = Inr ws"
  shows "format_query_result rd m =
           Inr (Some (code_block (table_lines (col_names (columns_of rd)) ws (slice_to m (rows_of rd)))
                        (footer (r_result rd) (rows_of rd) m)))"
  using assms by (simp add: format_query_result_def Let_def)






text \<open>
  C10. When there are rows and columns: if each displayed row has at most as many values
  as there are columns, the widening of \<open>widths\<close> never indexes out of range, the
  function returns a text, and a row is rendered with as many cells as it has values (a
  short row has no trailing cells); if some displayed row has more values than there are
  columns, the update of \<open>widths\<close> raises \<open>IndexError\<close>, and so does the function.
\<close>

theorem format_table_row_arity:
  assumes "rows_of rd \<noteq> []" and "columns_of rd \<noteq> []"
    and names: "names = col_names (columns_of rd)"
    and display: "display = slice_to max_rows (rows_of rd)"
  shows "((\<forall>r\<in>set display. length r \<le> length (columns_of rd)) \<longrightarrow>
            (\<exists>widths out.
               column_widths names display = Inr widths \<and>
               format_query_result rd max_rows = Inr (Some out) \<and>
               (\<forall>r\<in>set display. length (fmt_cells r widths) = length r))) \<and>
         ((\<exists>r\<in>set display. length (columns_of rd) < length r) \<longrightarrow>
            column_widths names display = Inl IndexError \<and>
            format_query_result rd max_rows = Inl IndexError)"
proof (intro conjI impI)
  assume "\<forall>r\<in>set display. length r \<le> length (columns_of rd)"
  then have ar: "\<forall>r\<in>set display. length r \<le> length names"
    by (simp add: names length_col_names)
  from column_widths_ok [OF this] obtain ws where
    w: "column_widths names display = Inr ws" and l: "length ws = length names"
    by blast
  have "format_query_result rd max_rows =
          Inr (Some (code_block (table_lines names ws display)
                       (footer (r_result rd) (rows_of rd) max_rows)))"
    using format_query_result_ok [of rd max_rows ws] assms(1,2) w names display by simp
  moreover have "\<forall>r\<in>set display. length (fmt_cells r ws) = length r"
    using ar l by (simp add: length_fmt_cells)
  ultimately show "\<exists>widths out.
               column_widths names display = Inr widths \<and>
               format_query_result rd max_rows = Inr (Some out) \<and>
               (\<forall>r\<in>set display. length (fmt_cells r widths) = length r)"
    using w by blast
next
  assume "\<exists>r\<in>set display. length (columns_of rd) < length r"
  then have "\<exists>r\<in>set display. length names < length r"
    by (simp add: names length_col_names)
  then have w: "column_widths names display = Inl IndexError"
    by (rule column_widths_bad)
  then show "column_widths names display = Inl IndexError" .
  from w assms(1,2) names display show "format_query_result rd max_rows = Inl IndexError"
    by (simp add: format_query_result_def Let_def)
qed


theorem format_table_row_arity_witness:
  "(\<exists>out. format_query_result result_two 15 = Inr (Some out)) \<and>
   fmt_cells [VStr ''abcdefghijklmnopqrstuvwxyz0123456789''] [30, 5]
     = [''abcdefghijklmnopqrstuvwxyz0123''] \<and>
   format_query_result ragged_result 15 = Inl IndexError"
  using format_table_row_arity [of result_two _ _ 15, OF _ _ refl refl]
    format_table_row_arity [of ragged_result _ _ 15, OF _ _ refl refl]
  by (simp add: result_two_def ragged_result_def rows_of_def columns_of_def col_names_def
      column_widths_def fmt_cells_def str_cell_def ljust_def slice_to_def)

section \<open>Questions and the binding of a thread\<close>

lemma strip_question:
  "strip_mention ''<@U123ABC> what is total revenue?'' = ''what is total revenue?''"
  by code_simp

lemma strip_stripped: "strip ''what is total revenue?'' = ''what is total revenue?''"
  by code_simp

lemma thread_conversations_post_feedback_prompt:
  "post_feedback_prompt be channel thread_ts result b w = (b', w') \<Longrightarrow>
     thread_conversations b' = thread_conversations b"
  by (auto simp: post_feedback_prompt_def split: if_splits prod.splits option.splits)

lemma handle_first_question:
  "handle_question rebinding_backend genie0 question bot0 world0 = Some (Inr (), bot1, world1)"
  by (simp add: handle_question_def question_def truthy_def strip_question strip_stripped
      thread_of_def slack_def rebinding_backend_def scripted_simps bot0_def world0_def
      ask_start_instant bind_conversation_def revenue_answer_def format_answer_def
      post_table_def qr_truthy_def post_feedback_prompt_def send_feedback_buttons_def Let_def
      bot1_def world1_def)

lemma handle_second_question:
  "\<exists>w2. handle_question rebinding_backend genie0 question bot1 world1
     = Some (Inr (),
             \<lparr>thread_conversations = [''T1'' \<mapsto> ''c2''],
              feedback_map = [''ts1'' \<mapsto> (''c2'', ''m2'')]\<rparr>, w2)"
  by (simp add: handle_question_def question_def truthy_def strip_question strip_stripped
      thread_of_def slack_def rebinding_backend_def scripted_simps
      ask_follow_instant bind_conversation_def revenue_answer_def format_answer_def
      post_table_def qr_truthy_def post_feedback_prompt_def send_feedback_buttons_def Let_def
      bot1_def world1_def)

text \<open>
  C2, as stated, fails. The first question of thread T1 binds the thread to conversation
  c1; the backend answers the follow-up in the same thread under conversation c2, and the
  thread is then bound to c2.
\<close>

theorem rebinding_counterexample:
  "bound_conversation (run_questions rebinding_backend genie0 [question] bot0 world0) ''T1''
     = Some ''c1'' \<and>
   bound_conversation (run_questions rebinding_backend genie0 [question, question] bot0 world0) ''T1''
     = Some ''c2''"
proof -
  from handle_second_question obtain w2 where
    "handle_question rebinding_backend genie0 question bot1 world1
     = Some (Inr (),
             \<lparr>thread_conversations = [''T1'' \<mapsto> ''c2''],
              feedback_map = [''ts1'' \<mapsto> (''c2'', ''m2'')]\<rparr>, w2)" ..
  then show ?thesis
    by (simp add: handle_first_question bound_conversation_def bot1_def)
qed

text \<open>
  C2, amended. When a question is handled and \<open>ask\<close>, called with the thread's current
  binding, returns a result, the bindings afterwards are the ones before, except that the
  thread of the question is bound to the conversation id of the result when the result
  carries a non-empty one, whatever the thread was bound to before.
\<close>

theorem handle_question_binding:
  assumes "\<not> truthy (ev_bot_id ev)"
    and "txt = strip_mention (case ev_text ev of None \<Rightarrow> [] | Some t \<Rightarrow> t)"
    and "strip txt \<noteq> []"
    and "slack be (PostMessage (ev_channel ev) ''Thinking...'' (thread_of ev)) w = (Some ts, w1)"
    and "ask be g txt (thread_conversations b (thread_of ev)) w1 = Some (Inr result, w2)"
  shows "\<exists>r b' w'. handle_question be g ev b w = Some (r, b', w') \<and>
           thread_conversations b'
             = (if truthy (conversation_id result)
                then (thread_conversations b)(thread_of ev \<mapsto> the (conversation_id result))
                else thread_conversations b)"
proof -
  let ?b1 = "bind_conversation (thread_of ev) result b"
  have b1: "thread_conversations ?b1
             = (if truthy (conversation_id result)
                then (thread_conversations b)(thread_of ev \<mapsto> the (conversation_id result))
                else thread_conversations b)"
    by (simp add: bind_conversation_def)
  obtain r3 w3 where s3: "slack be (Say (format_answer result) (thread_of ev)) w2 = (r3, w3)"
    by (cases "slack be (Say (format_answer result) (thread_of ev)) w2")
  obtain r4 w4 where s4: "post_table be (thread_of ev) result w3 = (r4, w4)"
    by (cases "post_table be (thread_of ev) result w3")
  obtain b5 w5 where s5: "post_feedback_prompt be (ev_channel ev) (thread_of ev) result ?b1 w4 = (b5, w5)"
    by (cases "post_feedback_prompt be (ev_channel ev) (thread_of ev) result ?b1 w4")
  from s5 have b5: "thread_conversations b5 = thread_conversations ?b1"
    by (rule thread_conversations_post_feedback_prompt)
  have "\<exists>r b' w'. handle_question be g ev b w = Some (r, b', w') \<and>
           thread_conversations b' = thread_conversations ?b1"
    using assms s3 s4 s5 b5
    by (cases r3; cases r4) (simp_all add: handle_question_def Let_def)
  with b1 show ?thesis by simp
qed

theorem handle_question_binding_witness:
  "\<exists>r b' w'. handle_question rebinding_backend genie0 question bot1 world1 = Some (r, b', w') \<and>
      thread_conversations bot1 ''T1'' = Some ''c1'' \<and>
      thread_conversations b' = [''T1'' \<mapsto> ''c2'']"
proof -
  let ?w1 = "world1\<lparr>outbox := outbox world1 @ [PostMessage ''C1'' ''Thinking...'' ''T1'']\<rparr>"
  let ?w2 = "?w1\<lparr>ext := Suc (ext ?w1),
                 trace := trace ?w1 @ [CreateMessage ''c1'' ''what is total revenue?'',
                                       GetMessage ''c2'' ''m2'']\<rparr>"
  have h1: "\<not> truthy (ev_bot_id question)"
    by (simp add: question_def truthy_def)
  have h2: "''what is total revenue?''
              = strip_mention (case ev_text question of None \<Rightarrow> [] | Some t \<Rightarrow> t)"
    by (simp add: question_def strip_question)
  have h3: "strip ''what is total revenue?'' \<noteq> []"
    by (simp add: strip_stripped)
  have h4: "slack rebinding_backend (PostMessage (ev_channel question) ''Thinking...''
              (thread_of question)) world1 = (Some ''ts1'', ?w1)"
    by (simp add: slack_def rebinding_backend_def scripted_simps question_def thread_of_def
        truthy_def)
  have h5: "ask rebinding_backend genie0 ''what is total revenue?''
              (thread_conversations bot1 (thread_of question)) ?w1
              = Some (Inr (revenue_answer ''c2'' ''m2''), ?w2)"
    unfolding rebinding_backend_def
    by (simp add: bot1_def question_def thread_of_def truthy_def ask_follow_instant)
  from handle_question_binding [OF h1 h2 h3 h4 h5] show ?thesis
    by (simp add: revenue_answer_def truthy_def bot1_def thread_of_def question_def)
qed

end
